theory Spec2Isabelle
  imports Complex_Main "HOL-Library.AList" "HOL-Library.Sublist"
begin

section \<open>Luna Social: the recommendation engine of \<^verbatim>\<open>src/backend.py\<close>\<close>

text \<open>
  A shallow embedding of \<^verbatim>\<open>RecommendationEngine\<close> and of the parts of
  \<^verbatim>\<open>LunaDatabase\<close> it reads. Conventions:
  \<^item> Python floats are idealised as \<^typ>\<open>real\<close>, Python ints are \<^typ>\<open>int\<close>
    (counters that only ever count up from 0 included);
  \<^item> a Python dict is an association list in insertion order, read with
    \<^const>\<open>map_of\<close> and written with \<^const>\<open>AList.update\<close> (an existing key keeps its
    place, a new key goes to the end, as in Python);
  \<^item> an exception is a value \<open>Inl e\<close> of a sum type;
  \<^item> the SQLite tables are lists of rows and each query is a function on them.
\<close>

subsection \<open>Data models\<close>

datatype VenueCategory =
  CAFE | RESTAURANT | NIGHTLIFE | HIKING | ART | MOVIE | PARK | BEACH | SHOPPING | GYM

datatype InteractionType = VIEW | LIKE | COMMENT | SAVE | CLICK | VISIT

text \<open>
  The dataclasses, with the fields the engine reads. (\<^verbatim>\<open>User\<close> also has username,
  email, created\_at, bio, avatar\_url, verified, saved\_venues, bookings and friends;
  \<^verbatim>\<open>Venue\<close> also has image\_url, address, phone, hours and website; \<^verbatim>\<open>Booking\<close>
  also has party\_size, special\_notes, qr\_code, status and created\_at. No function
  below reads them.) Timestamps are stored as ISO-8601 text and compared by the database;
  they are integers here.
\<close>

record User =
  user_id :: string
  user_location :: "real \<times> real"
  interests :: "string list"
  blocked_users :: "string list"

record Venue =
  venue_id :: string
  name :: string
  category :: VenueCategory
  venue_location :: "real \<times> real"
  description :: string
  rating :: real
  capacity :: int
  trending_score :: real

record Interaction =
  interaction_id :: string
  inter_user_id :: string
  inter_venue_id :: string
  interaction_type :: InteractionType
  duration_seconds :: int
  timestamp :: int

record Booking =
  booking_id :: string
  booking_user_id :: string
  booking_venue_id :: string
  booking_date :: int

datatype py_error = AttributeError | ValueError | NotFound

text \<open>
  \<^const>\<open>AttributeError\<close> and \<^const>\<open>ValueError\<close> are Python's built-in exceptions.
  \<^const>\<open>NotFound\<close> is the missing-entity error of the specification's taxonomy; no
  function of the source raises it.
\<close>

subsection \<open>Database layer\<close>

record LunaDatabase =
  users :: "User list"
  venues :: "Venue list"
  interactions :: "Interaction list"
  bookings :: "Booking list"

text \<open>\<^verbatim>\<open>SELECT user_id FROM users\<close>\<close>

definition get_all_user_ids :: "LunaDatabase \<Rightarrow> string list" where
  "get_all_user_ids d = map user_id (users d)"

text \<open>\<^verbatim>\<open>SELECT * FROM users WHERE user_id = ?\<close>, then \<^verbatim>\<open>result[0]\<close> if there is a row.\<close>

definition get_user :: "LunaDatabase \<Rightarrow> string \<Rightarrow> User option" where
  "get_user d uid =
     (case filter (\<lambda>u. user_id u = uid) (users d) of
        [] \<Rightarrow> None
      | row # _ \<Rightarrow> Some row)"

definition get_venue :: "LunaDatabase \<Rightarrow> string \<Rightarrow> Venue option" where
  "get_venue d vid =
     (case filter (\<lambda>v. venue_id v = vid) (venues d) of
        [] \<Rightarrow> None
      | row # _ \<Rightarrow> Some row)"

definition get_all_venues :: "LunaDatabase \<Rightarrow> Venue list" where
  "get_all_venues d = venues d"

text \<open>
  \<^verbatim>\<open>... WHERE user_id = ? ORDER BY timestamp DESC\<close>. Rows with equal timestamps come in
  an order SQLite leaves open; the stable sort fixes table order for them.
\<close>

definition get_user_interactions :: "LunaDatabase \<Rightarrow> string \<Rightarrow> Interaction list" where
  "get_user_interactions d uid =
     sort_key (\<lambda>i. - timestamp i) (filter (\<lambda>i. inter_user_id i = uid) (interactions d))"

definition get_user_bookings :: "LunaDatabase \<Rightarrow> string \<Rightarrow> Booking list" where
  "get_user_bookings d uid =
     sort_key (\<lambda>b. - booking_date b) (filter (\<lambda>b. booking_user_id b = uid) (bookings d))"

subsection \<open>The engine's state\<close>

text \<open>
  \<^verbatim>\<open>__init__\<close> sets \<^verbatim>\<open>db\<close> and \<^verbatim>\<open>scaler\<close> (and two dictionaries that are never
  used). \<^verbatim>\<open>rank_model\<close> and \<^verbatim>\<open>training_samples\<close> are attributes that exist only once
  training has stored them: \<open>None\<close> is the missing attribute. The scaler and the forest
  are scikit-learn objects, of types \<open>'s\<close> and \<open>'m\<close> here.
\<close>

record ('s, 'm) RecommendationEngine =
  db :: LunaDatabase
  scaler :: 's
  rank_model :: "'m option"
  training_samples :: "int option"

subsection \<open>\<^verbatim>\<open>calculate_distance\<close>\<close>

definition radians :: "real \<Rightarrow> real" where
  "radians x = x * pi / 180"

text \<open>The argument of \<^verbatim>\<open>math.sqrt\<close> in \<^verbatim>\<open>calculate_distance\<close>.\<close>

definition haversine_a :: "real \<times> real \<Rightarrow> real \<times> real \<Rightarrow> real" where
  "haversine_a loc1 loc2 =
     (let (lat1, lon1) = loc1;
          (lat2, lon2) = loc2;
          dlat = radians (lat2 - lat1);
          dlon = radians (lon2 - lon1)
      in (sin (dlat / 2))\<^sup>2
         + cos (radians lat1) * cos (radians lat2) * (sin (dlon / 2))\<^sup>2)"

text \<open>
  \<^verbatim>\<open>math.sqrt\<close> raises on a negative argument and \<^verbatim>\<open>math.asin\<close> outside \<open>[-1, 1]\<close>.
  Over the reals \<^const>\<open>haversine_a\<close> lies in \<open>[0, 1]\<close> (lemma \<open>haversine_a_range\<close>
  below), so neither branch is reachable and the function is total.
\<close>

definition calculate_distance :: "real \<times> real \<Rightarrow> real \<times> real \<Rightarrow> real" where
  "calculate_distance loc1 loc2 =
     (let R = 6371;
          a = haversine_a loc1 loc2;
          c = 2 * arcsin (sqrt a)
      in R * c)"

subsection \<open>\<^verbatim>\<open>build_user_profile\<close>\<close>

record metrics =
  views :: int
  likes :: int
  saves :: int
  visits :: int

definition default_metrics :: metrics where
  "default_metrics = \<lparr>views = 0, likes = 0, saves = 0, visits = 0\<rparr>"

text \<open>
  \<^verbatim>\<open>category_engagement[category][k] += 1\<close> on the \<^verbatim>\<open>defaultdict\<close>: a missing category
  is created with the default counters first.
\<close>

definition bump ::
  "(metrics \<Rightarrow> metrics) \<Rightarrow> VenueCategory \<Rightarrow> (VenueCategory \<times> metrics) list
     \<Rightarrow> (VenueCategory \<times> metrics) list" where
  "bump f c ce =
     AList.update c (f (case map_of ce c of None \<Rightarrow> default_metrics | Some m \<Rightarrow> m)) ce"

text \<open>One iteration of the loop over the interactions; the state is
  \<^verbatim>\<open>(category_engagement, total_view_time)\<close>.\<close>

definition engagement_step ::
  "LunaDatabase \<Rightarrow> Interaction \<Rightarrow> (VenueCategory \<times> metrics) list \<times> int
     \<Rightarrow> (VenueCategory \<times> metrics) list \<times> int" where
  "engagement_step d interaction st =
     (case st of (ce, total_view_time) \<Rightarrow>
        (case get_venue d (inter_venue_id interaction) of
           None \<Rightarrow> (ce, total_view_time)
         | Some venue \<Rightarrow>
             (case interaction_type interaction of
                VIEW \<Rightarrow> (bump (\<lambda>m. m\<lparr>views := views m + 1\<rparr>) (category venue) ce,
                         total_view_time + duration_seconds interaction)
              | LIKE \<Rightarrow> (bump (\<lambda>m. m\<lparr>likes := likes m + 1\<rparr>) (category venue) ce, total_view_time)
              | SAVE \<Rightarrow> (bump (\<lambda>m. m\<lparr>saves := saves m + 1\<rparr>) (category venue) ce, total_view_time)
              | VISIT \<Rightarrow> (bump (\<lambda>m. m\<lparr>visits := visits m + 1\<rparr>) (category venue) ce, total_view_time)
              | COMMENT \<Rightarrow> (ce, total_view_time)
              | CLICK \<Rightarrow> (ce, total_view_time))))"

fun engagement_loop ::
  "LunaDatabase \<Rightarrow> Interaction list \<Rightarrow> (VenueCategory \<times> metrics) list \<times> int
     \<Rightarrow> (VenueCategory \<times> metrics) list \<times> int" where
  "engagement_loop d [] st = st"
| "engagement_loop d (interaction # rest) st =
     engagement_loop d rest (engagement_step d interaction st)"

definition category_score :: "metrics \<Rightarrow> real" where
  "category_score m =
     real_of_int (views m) * 0.3 + real_of_int (likes m) * 1.0
       + real_of_int (saves m) * 1.5 + real_of_int (visits m) * 2.0"

record UserProfile =
  profile_user_id :: string
  location :: "real \<times> real"
  profile_interests :: "string list"
  category_scores :: "(VenueCategory \<times> real) list"
  total_engagement :: int
  avg_view_time :: real

text \<open>
  The user is fetched first and read last: with no user record the loop still runs and
  \<^verbatim>\<open>user.location\<close> in the returned dict raises \<^verbatim>\<open>AttributeError\<close> on \<^verbatim>\<open>None\<close>.
\<close>

definition build_user_profile ::
  "('s, 'm) RecommendationEngine \<Rightarrow> string \<Rightarrow> py_error + UserProfile" where
  "build_user_profile self uid =
     (let user = get_user (db self) uid;
          inters = get_user_interactions (db self) uid;
          (category_engagement, total_view_time) = engagement_loop (db self) inters ([], 0);
          scores = map (\<lambda>(c, m). (c, category_score m)) category_engagement
      in case user of
           None \<Rightarrow> Inl AttributeError
         | Some u \<Rightarrow>
             Inr \<lparr>profile_user_id = uid,
                  location = user_location u,
                  profile_interests = interests u,
                  category_scores = scores,
                  total_engagement = int (length inters),
                  avg_view_time =
                    real_of_int total_view_time
                      / real_of_int (max (int (length (filter (\<lambda>i. interaction_type i = VIEW) inters))) 1)\<rparr>)"

subsection \<open>\<^verbatim>\<open>get_venue_features\<close>\<close>

definition get_venue_features :: "Venue \<Rightarrow> UserProfile \<Rightarrow> real list" where
  "get_venue_features venue user_profile =
     (let distance = calculate_distance (location user_profile) (venue_location venue);
          distance_score = max 0 (1 - distance / 10);
          category_match =
            (if category venue \<in> fst ` set (category_scores user_profile) then 1.0 else 0.5);
          category_engagement =
            (case map_of (category_scores user_profile) (category venue) of
               Some s \<Rightarrow> s
             | None \<Rightarrow> 0.1)
      in [rating venue / 5.0,
          distance_score,
          trending_score venue,
          category_match * category_engagement,
          real_of_int (capacity venue) / 1000])"

subsection \<open>\<^verbatim>\<open>recommend_venues\<close>\<close>

text \<open>
  \<^verbatim>\<open>str.lower()\<close> on ASCII letters; strings are byte strings here and every other
  character is left as it is. \<^verbatim>\<open>a in b\<close> on strings is \<^const>\<open>sublist\<close>.
\<close>

definition lower_char :: "char \<Rightarrow> char" where
  "lower_char c =
     (let n = (of_char c :: nat) in if 65 \<le> n \<and> n \<le> 90 then char_of (n + 32) else c)"

definition lower :: "string \<Rightarrow> string" where
  "lower s = map lower_char s"

text \<open>\<^verbatim>\<open>xs[:limit]\<close>: a negative limit counts from the end.\<close>

definition slice_to :: "int \<Rightarrow> 'a list \<Rightarrow> 'a list" where
  "slice_to limit xs =
     (if 0 \<le> limit then take (nat limit) xs else take (nat (int (length xs) + limit)) xs)"

text \<open>The loop that adds \<open>0.15\<close> for every interest found in the name or the description.\<close>

fun interest_boost_loop :: "string list \<Rightarrow> Venue \<Rightarrow> real \<Rightarrow> real" where
  "interest_boost_loop [] venue interest_boost = interest_boost"
| "interest_boost_loop (interest # rest) venue interest_boost =
     interest_boost_loop rest venue
       (if sublist (lower interest) (lower (name venue))
           \<or> sublist (lower interest) (lower (description venue))
        then interest_boost + 0.15 else interest_boost)"

datatype pyval = Str string | Num real

text \<open>
  The key of the second sort, \<^verbatim>\<open>x["final_score"]\<close>. Every entry is built by
  \<open>score_venue\<close> below with that key, so the lookup cannot fail there.
\<close>

definition final_score_of :: "(string \<times> pyval) list \<Rightarrow> real" where
  "final_score_of d = (case map_of d ''final_score'' of Some (Num r) \<Rightarrow> r | _ \<Rightarrow> 0)"

text \<open>
  The body of the loop over the venues: the tuple appended to \<^verbatim>\<open>scored_venues\<close> and the
  dict appended to \<^verbatim>\<open>reasoning_details\<close>. The test on the user's bookings is there, and
  its branch is \<^verbatim>\<open>pass\<close>.
\<close>

definition score_venue ::
  "('s, 'm) RecommendationEngine \<Rightarrow> string \<Rightarrow> UserProfile \<Rightarrow> Venue
     \<Rightarrow> (Venue \<times> real \<times> real \<times> real) \<times> (string \<times> pyval) list" where
  "score_venue self uid user_profile venue =
     (let booked = venue_id venue \<in> set (map booking_venue_id (get_user_bookings (db self) uid));
          pass = (if booked then () else ());
          features = get_venue_features venue user_profile;
          base_score = sum_list (map2 (*) features [0.25, 0.25, 0.2, 0.25, 0.05]);
          interest_boost = interest_boost_loop (profile_interests user_profile) venue 0;
          category_boost =
            (case map_of (category_scores user_profile) (category venue) of
               Some s \<Rightarrow> s
             | None \<Rightarrow> 0) * 0.1;
          final_score = min 1.0 (base_score + interest_boost + category_boost)
      in ((venue, final_score, interest_boost, category_boost),
          [(''venue'', Str (name venue)),
           (''rating_component'', Num (features ! 0)),
           (''distance_component'', Num (features ! 1)),
           (''trending_component'', Num (features ! 2)),
           (''category_component'', Num (features ! 3)),
           (''interest_boost'', Num interest_boost),
           (''category_boost'', Num category_boost),
           (''final_score'', Num final_score)]))"

record reasoning =
  algorithm :: string
  details :: "(string \<times> pyval) list list"

text \<open>
  Both lists are sorted by descending score with Python's stable sort
  (\<^verbatim>\<open>reverse=True\<close> keeps equal keys in their original order).
\<close>

definition recommend_venues ::
  "('s, 'm) RecommendationEngine \<Rightarrow> string \<Rightarrow> int \<Rightarrow> bool
     \<Rightarrow> py_error + ((Venue \<times> real) list \<times> reasoning)" where
  "recommend_venues self uid limit show_reasoning =
     (case build_user_profile self uid of
        Inl e \<Rightarrow> Inl e
      | Inr user_profile \<Rightarrow>
          (let all_venues = get_all_venues (db self);
               results = map (score_venue self uid user_profile) all_venues;
               scored_venues = sort_key (\<lambda>(v, s, ib, cb). - s) (map fst results);
               recommendations = map (\<lambda>(v, s, ib, cb). (v, s)) (slice_to limit scored_venues);
               reasoning_details = sort_key (\<lambda>d. - final_score_of d) (map snd results)
           in Inr (recommendations,
                   \<lparr>algorithm = ''Hybrid Recommendation Engine'',
                    details = slice_to limit reasoning_details\<rparr>)))"

subsection \<open>\<^verbatim>\<open>recommend_users\<close>\<close>

text \<open>\<^verbatim>\<open>f"user_{i:03d}"\<close> for the loop counter \<open>i = 0, 1, 2, ...\<close>\<close>

definition digit_char :: "nat \<Rightarrow> char" where
  "digit_char k = ''0123456789'' ! k"

fun str_nat :: "nat \<Rightarrow> string" where
  "str_nat n = (if n < 10 then [digit_char n] else str_nat (n div 10) @ [digit_char (n mod 10)])"

declare str_nat.simps [simp del]

definition format_03d :: "nat \<Rightarrow> string" where
  "format_03d i = replicate (3 - length (str_nat i)) (CHR ''0'') @ str_nat i"

definition user_key :: "nat \<Rightarrow> string" where
  "user_key i = ''user_'' @ format_03d i"

text \<open>
  Reading the digits back gives the counter, so distinct counters give distinct keys.
  The \<^verbatim>\<open>while True\<close> loop below stops on that ground: the table is finite.
\<close>

definition digit_val :: "char \<Rightarrow> nat" where
  "digit_val c = of_char c - 48"

fun nat_of_str :: "string \<Rightarrow> nat \<Rightarrow> nat" where
  "nat_of_str [] acc = acc"
| "nat_of_str (c # cs) acc = nat_of_str cs (10 * acc + digit_val c)"

lemma digit_val_digit_char: "k < 10 \<Longrightarrow> digit_val (digit_char k) = k"
proof -
  assume "k < 10"
  then have "k \<in> {0, 1, 2, 3, 4, 5, 6, 7, 8, 9}" by auto
  then show ?thesis by (auto simp: digit_val_def digit_char_def)
qed

lemma nat_of_str_append: "nat_of_str (xs @ ys) acc = nat_of_str ys (nat_of_str xs acc)"
  by (induction xs arbitrary: acc) auto

lemma nat_of_str_str_nat: "nat_of_str (str_nat n) 0 = n"
proof (induction n rule: str_nat.induct)
  case (1 n)
  show ?case
  proof (cases "n < 10")
    case True
    then show ?thesis by (subst str_nat.simps) (simp add: digit_val_digit_char)
  next
    case False
    then have "nat_of_str (str_nat (n div 10)) 0 = n div 10" using 1 by simp
    with False show ?thesis
      by (subst str_nat.simps) (simp add: nat_of_str_append digit_val_digit_char)
  qed
qed

lemma nat_of_str_zeros: "nat_of_str (replicate k (CHR ''0'') @ s) 0 = nat_of_str s 0"
  by (induction k) (auto simp: digit_val_def)

lemma nat_of_format_03d: "nat_of_str (format_03d i) 0 = i"
  by (simp add: format_03d_def nat_of_str_zeros nat_of_str_str_nat)

lemma inj_user_key: "inj user_key"
proof (rule injI)
  fix i j assume "user_key i = user_key j"
  then have "format_03d i = format_03d j" by (simp add: user_key_def)
  then have "nat_of_str (format_03d i) 0 = nat_of_str (format_03d j) 0" by simp
  then show "i = j" by (simp add: nat_of_format_03d)
qed

text \<open>The three terms of the compatibility score and their weighted sum.\<close>

definition interest_overlap :: "string list \<Rightarrow> string list \<Rightarrow> real" where
  "interest_overlap target_interests other_interests =
     real (card (set target_interests \<inter> set other_interests))
       / real (max (card (set target_interests \<union> set other_interests)) 1)"

definition category_overlap ::
  "(VenueCategory \<times> real) list \<Rightarrow> (VenueCategory \<times> real) list \<Rightarrow> real" where
  "category_overlap target_scores other_scores =
     (let target_categories = fst ` set target_scores;
          other_categories = fst ` set other_scores
      in real (card (target_categories \<inter> other_categories))
           / real (max (card (target_categories \<union> other_categories)) 1))"

definition location_score :: "real \<times> real \<Rightarrow> real \<times> real \<Rightarrow> real" where
  "location_score loc1 loc2 = max 0 (1 - calculate_distance loc1 loc2 / 20)"

definition compatibility_score :: "UserProfile \<Rightarrow> UserProfile \<Rightarrow> real" where
  "compatibility_score target_profile other_profile =
     interest_overlap (profile_interests target_profile) (profile_interests other_profile) * 0.4
       + category_overlap (category_scores target_profile) (category_scores other_profile) * 0.35
       + location_score (location target_profile) (location other_profile) * 0.25"

text \<open>What a lookup by primary key returns.\<close>

lemma get_user_Some: "get_user d k = Some u \<Longrightarrow> user_id u = k \<and> u \<in> set (users d)"
proof -
  assume "get_user d k = Some u"
  then obtain rest where "filter (\<lambda>u. user_id u = k) (users d) = u # rest"
    by (auto simp: get_user_def split: list.splits)
  then have "u \<in> set (filter (\<lambda>u. user_id u = k) (users d))" by simp
  then show ?thesis by simp
qed

lemma get_user_None: "get_user d k = None \<longleftrightarrow> k \<notin> user_id ` set (users d)"
proof
  assume "get_user d k = None"
  then have "filter (\<lambda>u. user_id u = k) (users d) = []"
    by (simp add: get_user_def split: list.splits)
  then show "k \<notin> user_id ` set (users d)" by (auto simp: filter_empty_conv)
next
  assume "k \<notin> user_id ` set (users d)"
  then have "filter (\<lambda>u. user_id u = k) (users d) = []" by (auto simp: filter_empty_conv)
  then show "get_user d k = None" by (simp add: get_user_def)
qed

text \<open>
  The \<^verbatim>\<open>while True\<close> loop: it asks for \<^verbatim>\<open>user_000\<close>, \<^verbatim>\<open>user_001\<close>, ... and breaks
  at the first key with no user. \<open>i\<close> is the counter, \<open>all_users\<close> the list built so far.
\<close>

function collect_users ::
  "LunaDatabase \<Rightarrow> string \<Rightarrow> User \<Rightarrow> nat \<Rightarrow> User list \<Rightarrow> User list" where
  "collect_users d uid target_user i all_users =
     (case get_user d (user_key i) of
        None \<Rightarrow> all_users
      | Some user \<Rightarrow>
          collect_users d uid target_user (i + 1)
            (if user_id user \<noteq> uid \<and> user_id user \<notin> set (blocked_users target_user)
             then all_users @ [user] else all_users))"
  by pat_completeness auto
termination
proof (relation "measure (\<lambda>(d, uid, target_user, i, all_users).
          card {j. i \<le> j \<and> user_key j \<in> user_id ` set (users d)})", goal_cases)
  case 1
  show ?case by simp
next
  case (2 d uid target_user i all_users user)
  let ?S = "\<lambda>i. {j. i \<le> j \<and> user_key j \<in> user_id ` set (users d)}"
  have fin: "finite (?S i)"
  proof -
    have "finite (user_key -` (user_id ` set (users d)))"
      by (rule finite_vimageI) (simp_all add: inj_user_key)
    moreover have "?S i \<subseteq> user_key -` (user_id ` set (users d))" by auto
    ultimately show ?thesis by (rule rev_finite_subset)
  qed
  from 2 have "user_key i \<in> user_id ` set (users d)"
    using get_user_Some by force
  then have "i \<in> ?S i" "i \<notin> ?S (i + 1)" by auto
  moreover have "?S (i + 1) \<subseteq> ?S i" by auto
  ultimately have "?S (i + 1) \<subset> ?S i" by blast
  then have "card (?S (i + 1)) < card (?S i)" using fin by (rule psubset_card_mono[rotated])
  then show ?case by simp
qed

declare collect_users.simps [simp del]

text \<open>The loop over \<^verbatim>\<open>all_users\<close>; \<open>scored_users\<close> is the list built so far.\<close>

fun score_users ::
  "('s, 'm) RecommendationEngine \<Rightarrow> UserProfile \<Rightarrow> User list \<Rightarrow> (User \<times> real) list
     \<Rightarrow> py_error + (User \<times> real) list" where
  "score_users self target_profile [] scored_users = Inr scored_users"
| "score_users self target_profile (other_user # rest) scored_users =
     (case build_user_profile self (user_id other_user) of
        Inl e \<Rightarrow> Inl e
      | Inr other_profile \<Rightarrow>
          score_users self target_profile rest
            (scored_users @ [(other_user, compatibility_score target_profile other_profile)]))"

text \<open>
  \<^verbatim>\<open>target_user\<close> is fetched before the profile is built; with no such user
  \<^verbatim>\<open>build_user_profile\<close> has raised before \<^verbatim>\<open>target_user.blocked_users\<close> is read.
\<close>

definition recommend_users ::
  "('s, 'm) RecommendationEngine \<Rightarrow> string \<Rightarrow> int \<Rightarrow> py_error + (User \<times> real) list" where
  "recommend_users self uid limit =
     (let target_user = get_user (db self) uid
      in case build_user_profile self uid of
           Inl e \<Rightarrow> Inl e
         | Inr target_profile \<Rightarrow>
             (case target_user of
                None \<Rightarrow> Inl AttributeError
              | Some tu \<Rightarrow>
                  (let all_users = collect_users (db self) uid tu 0 []
                   in case score_users self target_profile all_users [] of
                        Inl e \<Rightarrow> Inl e
                      | Inr scored_users \<Rightarrow>
                          Inr (slice_to limit (sort_key (\<lambda>(u, s). - s) scored_users)))))"

subsection \<open>\<^verbatim>\<open>train_ranker_from_interactions\<close>\<close>

text \<open>The label of one interaction \<open>intr\<close> (\<^verbatim>\<open>inter\<close> in the source); \<open>None\<close> is
  Python's \<^verbatim>\<open>label = None\<close>.\<close>

definition interaction_label :: "Interaction \<Rightarrow> real option" where
  "interaction_label intr =
     (if interaction_type intr = LIKE \<or> interaction_type intr = SAVE
         \<or> interaction_type intr = VISIT
      then Some 1.0
      else if interaction_type intr = VIEW
      then (if duration_seconds intr \<le> 15 then Some 0.0
            else if duration_seconds intr \<ge> 60 then Some 1.0
            else None)
      else None)"

text \<open>The loop that fills \<^verbatim>\<open>venue_label\<close> for one user.\<close>

fun venue_label_loop :: "Interaction list \<Rightarrow> (string \<times> real) list \<Rightarrow> (string \<times> real) list" where
  "venue_label_loop [] venue_label = venue_label"
| "venue_label_loop (intr # rest) venue_label =
     venue_label_loop rest
       (case interaction_label intr of
          None \<Rightarrow> venue_label
        | Some label \<Rightarrow>
            (let prev = (case map_of venue_label (inter_venue_id intr) of
                           Some l \<Rightarrow> l
                         | None \<Rightarrow> 0.0)
             in AList.update (inter_venue_id intr) (max prev label) venue_label))"

text \<open>The loop over \<^verbatim>\<open>venue_label.items()\<close> that appends to \<^verbatim>\<open>X\<close> and \<^verbatim>\<open>y\<close>.\<close>

fun samples_loop ::
  "LunaDatabase \<Rightarrow> UserProfile \<Rightarrow> (string \<times> real) list \<Rightarrow> real list list \<times> real list
     \<Rightarrow> real list list \<times> real list" where
  "samples_loop d profile [] Xy = Xy"
| "samples_loop d profile ((vid, label) # rest) Xy =
     samples_loop d profile rest
       (case get_venue d vid of
          None \<Rightarrow> Xy
        | Some venue \<Rightarrow> (fst Xy @ [get_venue_features venue profile], snd Xy @ [label]))"

text \<open>The loop over \<^verbatim>\<open>user_ids\<close>.\<close>

fun training_loop ::
  "('s, 'm) RecommendationEngine \<Rightarrow> string list \<Rightarrow> real list list \<times> real list
     \<Rightarrow> py_error + real list list \<times> real list" where
  "training_loop self [] Xy = Inr Xy"
| "training_loop self (uid # rest) Xy =
     (case build_user_profile self uid of
        Inl e \<Rightarrow> Inl e
      | Inr profile \<Rightarrow>
          (let inters = get_user_interactions (db self) uid;
               venue_label = venue_label_loop inters []
           in training_loop self rest (samples_loop (db self) profile venue_label Xy)))"

text \<open>
  scikit-learn is outside the repository: fitting the scaler, transforming with it and
  fitting the forest are parameters. Each may raise.
\<close>

record ('s, 'm) sklearn =
  scaler_fit :: "'s \<Rightarrow> real list list \<Rightarrow> py_error + 's"
  scaler_transform :: "'s \<Rightarrow> real list list \<Rightarrow> py_error + real list list"
  forest_fit :: "real list list \<Rightarrow> real list \<Rightarrow> py_error + 'm"

text \<open>
  The result is the engine after the call (the method returns \<^verbatim>\<open>None\<close>). When a
  scikit-learn call raises the model gives the exception only.
\<close>

definition train_ranker_from_interactions ::
  "('s, 'm) sklearn \<Rightarrow> ('s, 'm) RecommendationEngine \<Rightarrow> int
     \<Rightarrow> py_error + ('s, 'm) RecommendationEngine" where
  "train_ranker_from_interactions sk self min_samples =
     (let user_ids = get_all_user_ids (db self)
      in if user_ids = [] then Inr self
         else case training_loop self user_ids ([], []) of
                Inl e \<Rightarrow> Inl e
              | Inr (X, y) \<Rightarrow>
                  if int (length X) < min_samples then Inr self
                  else (case scaler_fit sk (scaler self) X of
                          Inl e \<Rightarrow> Inl e
                        | Inr fitted \<Rightarrow>
                            (case scaler_transform sk fitted X of
                               Inl e \<Rightarrow> Inl e
                             | Inr X_scaled \<Rightarrow>
                                 (case forest_fit sk X_scaled y of
                                    Inl e \<Rightarrow> Inl e
                                  | Inr rf \<Rightarrow>
                                      Inr (self\<lparr>scaler := fitted,
                                                 rank_model := Some rf,
                                                 training_samples := Some (int (length X))\<rparr>)))))"

subsection \<open>Example data\<close>

text \<open>
  One user, one cafe at the user's coordinates, one visit of the user to it and no
  booking; \<open>demo_profile\<close> is the profile the engine builds for the user.
\<close>

definition demo_user :: User where
  "demo_user = \<lparr>user_id = ''user_000'', user_location = (0, 0), interests = [],
                 blocked_users = []\<rparr>"

definition demo_venue :: Venue where
  "demo_venue = \<lparr>venue_id = ''venue_000'', name = ''Blue Bottle'', category = CAFE,
                  venue_location = (0, 0), description = ''Coffee bar'', rating = 4,
                  capacity = 100, trending_score = 1 / 2\<rparr>"

definition demo_visit :: Interaction where
  "demo_visit = \<lparr>interaction_id = ''inter_0000'', inter_user_id = ''user_000'',
                  inter_venue_id = ''venue_000'', interaction_type = VISIT,
                  duration_seconds = 0, timestamp = 0\<rparr>"

definition demo_db :: LunaDatabase where
  "demo_db = \<lparr>users = [demo_user], venues = [demo_venue], interactions = [demo_visit],
               bookings = []\<rparr>"

definition demo_engine :: "(unit, unit) RecommendationEngine" where
  "demo_engine = \<lparr>db = demo_db, scaler = (), rank_model = None, training_samples = None\<rparr>"

definition demo_profile :: UserProfile where
  "demo_profile = \<lparr>profile_user_id = ''user_000'', location = (0, 0), profile_interests = [],
                    category_scores = [(CAFE, 2)], total_engagement = 1, avg_view_time = 0\<rparr>"

text \<open>The breakdown \<^verbatim>\<open>recommend_venues\<close> gives for the example venue.\<close>

definition demo_detail :: "(string \<times> pyval) list" where
  "demo_detail =
     [(''venue'', Str ''Blue Bottle''),
      (''rating_component'', Num (4 / 5)),
      (''distance_component'', Num 1),
      (''trending_component'', Num (1 / 2)),
      (''category_component'', Num 2),
      (''interest_boost'', Num 0),
      (''category_boost'', Num (1 / 5)),
      (''final_score'', Num 1)]"

text \<open>
  A stand-in for scikit-learn whose three calls succeed, and the engine after training on
  the example data with \<^verbatim>\<open>min_samples = 1\<close>.
\<close>

definition demo_sklearn :: "(unit, unit) sklearn" where
  "demo_sklearn = \<lparr>scaler_fit = (\<lambda>s X. Inr ()), scaler_transform = (\<lambda>s X. Inr X),
                    forest_fit = (\<lambda>X y. Inr ())\<rparr>"

definition trained_engine :: "(unit, unit) RecommendationEngine" where
  "trained_engine = \<lparr>db = demo_db, scaler = (), rank_model = Some (),
                      training_samples = Some 1\<rparr>"

text \<open>A five-second view of the example venue by the example user.\<close>

definition demo_short_view :: Interaction where
  "demo_short_view = \<lparr>interaction_id = ''inter_0001'', inter_user_id = ''user_000'',
                       inter_venue_id = ''venue_000'', interaction_type = VIEW,
                       duration_seconds = 5, timestamp = 1\<rparr>"

text \<open>
  A second database for \<^verbatim>\<open>recommend_users\<close>: the example user, a user \<^verbatim>\<open>user_001\<close> with
  no interaction and a user whose id is not of the form \<^verbatim>\<open>user_NNN\<close>.
\<close>

definition demo_friend :: User where
  "demo_friend = \<lparr>user_id = ''user_001'', user_location = (0, 0), interests = [],
                   blocked_users = []\<rparr>"

definition demo_guest :: User where
  "demo_guest = \<lparr>user_id = ''guest'', user_location = (0, 0), interests = [],
                  blocked_users = []\<rparr>"

definition pair_db :: LunaDatabase where
  "pair_db = \<lparr>users = [demo_user, demo_friend, demo_guest], venues = [demo_venue],
               interactions = [demo_visit], bookings = []\<rparr>"

definition pair_engine :: "(unit, unit) RecommendationEngine" where
  "pair_engine = \<lparr>db = pair_db, scaler = (), rank_model = None, training_samples = None\<rparr>"

definition friend_profile :: UserProfile where
  "friend_profile = \<lparr>profile_user_id = ''user_001'', location = (0, 0),
                      profile_interests = [], category_scores = [], total_engagement = 0,
                      avg_view_time = 0\<rparr>"

section \<open>Properties\<close>

subsection \<open>Distance\<close>

text \<open>
  The argument of the square root is \<open>h + cos q * cos p * t\<close> with \<open>h\<close> and \<open>t\<close> squares of
  sines; \<open>cos q * cos p\<close> lies between \<open>- h\<close> and \<open>1 - h\<close>.
\<close>

lemma haversine_core:
  fixes y p q :: real
  shows "0 \<le> (sin ((p - q) / 2))\<^sup>2 + cos q * cos p * (sin y)\<^sup>2"
    and "(sin ((p - q) / 2))\<^sup>2 + cos q * cos p * (sin y)\<^sup>2 \<le> 1"
proof -
  define h where "h = (sin ((p - q) / 2))\<^sup>2"
  define t where "t = (sin y)\<^sup>2"
  define c where "c = cos (q + p)"
  have t: "0 \<le> t" "t \<le> 1"
    by (simp_all add: t_def abs_square_le_1 abs_sin_le_one)
  have h: "0 \<le> h" by (simp add: h_def)
  have h1: "h \<le> 1" by (simp add: h_def abs_square_le_1 abs_sin_le_one)
  have c: "- 1 \<le> c" "c \<le> 1" by (simp_all add: c_def)
  have "q - p = - (2 * ((p - q) / 2))" by (simp add: field_simps)
  then have "cos (q - p) = cos (2 * ((p - q) / 2))" by (simp only: cos_minus)
  then have cd: "cos (q - p) = 1 - 2 * h"
    by (simp only: cos_double_sin h_def)
  have cc: "cos q * cos p = (1 - 2 * h + c) / 2"
    unfolding cos_times_cos cd c_def ..
  have lo: "- h \<le> cos q * cos p" unfolding cc using c by argo
  have hi: "cos q * cos p \<le> 1 - h" unfolding cc using c by argo
  have "- h * t \<le> cos q * cos p * t"
    using lo t(1) by (rule mult_right_mono)
  moreover have "h * t \<le> h * 1"
    using t(2) h by (rule mult_left_mono)
  ultimately have "0 \<le> h + cos q * cos p * t" by argo
  then show "0 \<le> (sin ((p - q) / 2))\<^sup>2 + cos q * cos p * (sin y)\<^sup>2"
    by (simp add: h_def t_def)
  have "cos q * cos p * t \<le> (1 - h) * t"
    using hi t(1) by (rule mult_right_mono)
  moreover have "(1 - h) * t \<le> (1 - h) * 1"
    using t(2) h1 by (intro mult_left_mono) simp_all
  ultimately have "h + cos q * cos p * t \<le> 1" by argo
  then show "(sin ((p - q) / 2))\<^sup>2 + cos q * cos p * (sin y)\<^sup>2 \<le> 1"
    by (simp add: h_def t_def)
qed


lemma haversine_a_range: "0 \<le> haversine_a loc1 loc2 \<and> haversine_a loc1 loc2 \<le> 1"
proof -
  obtain lat1 lon1 lat2 lon2 where l: "loc1 = (lat1, lon1)" "loc2 = (lat2, lon2)"
    by (cases loc1, cases loc2) auto
  have e: "radians (lat2 - lat1) / 2 = (radians lat2 - radians lat1) / 2"
    by (simp add: radians_def algebra_simps diff_divide_distrib)
  have "haversine_a loc1 loc2 =
          (sin ((radians lat2 - radians lat1) / 2))\<^sup>2
            + cos (radians lat1) * cos (radians lat2) * (sin (radians (lon2 - lon1) / 2))\<^sup>2"
    by (simp add: haversine_a_def l e)
  then show ?thesis
    using haversine_core[of "radians lat2" "radians lat1" "radians (lon2 - lon1) / 2"]
    by simp
qed

lemma calculate_distance_nonneg: "0 \<le> calculate_distance loc1 loc2"
proof -
  have "0 \<le> sqrt (haversine_a loc1 loc2)" "sqrt (haversine_a loc1 loc2) \<le> 1"
    using haversine_a_range[of loc1 loc2] by simp_all
  then have "0 \<le> arcsin (sqrt (haversine_a loc1 loc2))" by (intro arcsin_nonneg) simp
  then show ?thesis by (simp add: calculate_distance_def Let_def)
qed

lemma haversine_a_sym: "haversine_a loc1 loc2 = haversine_a loc2 loc1"
proof -
  obtain lat1 lon1 lat2 lon2 where l: "loc1 = (lat1, lon1)" "loc2 = (lat2, lon2)"
    by (cases loc1, cases loc2) auto
  have m: "radians (a - b) / 2 = - (radians (b - a) / 2)" for a b
    by (simp add: radians_def algebra_simps diff_divide_distrib)
  have sq: "(sin (radians (a - b) / 2))\<^sup>2 = (sin (radians (b - a) / 2))\<^sup>2" for a b
    by (subst m) simp
  show ?thesis
    by (simp add: haversine_a_def l sq[of lat2 lat1] sq[of lon2 lon1] mult.commute)
qed

lemma calculate_distance_sym: "calculate_distance loc1 loc2 = calculate_distance loc2 loc1"
  by (simp add: calculate_distance_def haversine_a_sym[of loc1 loc2])

lemma calculate_distance_same: "calculate_distance loc loc = 0"
  by (cases loc) (simp add: calculate_distance_def haversine_a_def radians_def)

subsection \<open>The example evaluated\<close>

lemma demo_get_venue: "get_venue demo_db ''venue_000'' = Some demo_venue"
  by (simp add: get_venue_def demo_db_def demo_venue_def)

lemma demo_interactions: "get_user_interactions demo_db ''user_000'' = [demo_visit]"
  by (simp add: get_user_interactions_def demo_db_def demo_visit_def)

lemma demo_get_user: "get_user demo_db ''user_000'' = Some demo_user"
  by (simp add: get_user_def demo_db_def demo_user_def)

lemma demo_step:
  "engagement_step demo_db demo_visit ([], 0)
     = ([(CAFE, \<lparr>views = 0, likes = 0, saves = 0, visits = 1\<rparr>)], 0)"
proof -
  have v: "get_venue demo_db (inter_venue_id demo_visit) = Some demo_venue"
    using demo_get_venue by (simp add: demo_visit_def)
  have t: "interaction_type demo_visit = VISIT" by (simp add: demo_visit_def)
  have c: "category demo_venue = CAFE" by (simp add: demo_venue_def)
  show ?thesis
    by (simp add: engagement_step_def v t c bump_def default_metrics_def)
qed

lemma demo_build_db:
  assumes d: "db self = demo_db"
  shows "build_user_profile self ''user_000'' = Inr demo_profile"
proof -
  have f: "filter (\<lambda>i. interaction_type i = VIEW) [demo_visit] = []"
    by (simp add: demo_visit_def)
  show ?thesis
    by (simp add: build_user_profile_def d demo_interactions demo_get_user demo_step f
        category_score_def demo_profile_def demo_user_def)
qed

lemma demo_build: "build_user_profile demo_engine ''user_000'' = Inr demo_profile"
  by (rule demo_build_db) (simp add: demo_engine_def)

subsection \<open>Compatibility\<close>

lemma interest_overlap_sym: "interest_overlap x y = interest_overlap y x"
  unfolding interest_overlap_def by (simp only: Int_commute[of "set x"] Un_commute[of "set x"])

lemma category_overlap_sym: "category_overlap x y = category_overlap y x"
  unfolding category_overlap_def Let_def
  by (simp only: Int_commute[of "fst ` set x"] Un_commute[of "fst ` set x"])

lemma location_score_sym: "location_score x y = location_score y x"
  unfolding location_score_def by (simp only: calculate_distance_sym[of x y])

text \<open>
  Claim C8: the pairwise compatibility score of \<^verbatim>\<open>recommend_users\<close> is symmetric in the
  two profiles, and so is the Haversine distance it is built on.
\<close>

theorem compatibility_symmetric:
  "compatibility_score a b = compatibility_score b a
   \<and> calculate_distance (location a) (location b) = calculate_distance (location b) (location a)"
proof
  show "compatibility_score a b = compatibility_score b a"
    unfolding compatibility_score_def
    by (simp only: interest_overlap_sym[of "profile_interests a"]
        category_overlap_sym[of "category_scores a"] location_score_sym[of "location a"])
  show "calculate_distance (location a) (location b) = calculate_distance (location b) (location a)"
    by (rule calculate_distance_sym)
qed

text \<open>
  Claim C7, as amended: when both users have no interests the interest-overlap term of the
  compatibility score is \<open>0\<close> (the intersection is empty and the denominator is
  \<^verbatim>\<open>max(0, 1) = 1\<close>).
\<close>

theorem interest_overlap_both_empty: "interest_overlap [] [] = 0"
  by (simp add: interest_overlap_def)

text \<open>Claim C7 as stated gives \<open>0.5\<close> for that term; the code gives another value.\<close>

theorem interest_overlap_both_empty_counterexample: "interest_overlap [] [] \<noteq> 0.5"
  by (simp add: interest_overlap_def)

subsection \<open>Bookings\<close>

lemma build_user_profile_bookings:
  "build_user_profile (self\<lparr>db := (db self)\<lparr>bookings := bs\<rparr>\<rparr>) uid = build_user_profile self uid"
proof -
  have gv: "get_venue ((db self)\<lparr>bookings := bs\<rparr>) = get_venue (db self)"
    by (rule ext) (simp add: get_venue_def)
  have st: "engagement_step ((db self)\<lparr>bookings := bs\<rparr>) = engagement_step (db self)"
    by (intro ext) (simp add: engagement_step_def gv)
  have lp: "engagement_loop ((db self)\<lparr>bookings := bs\<rparr>) xs s = engagement_loop (db self) xs s"
    for xs s
    by (induction xs arbitrary: s) (simp_all add: st)
  show ?thesis
    by (simp add: build_user_profile_def get_user_def get_user_interactions_def lp)
qed

lemma score_venue_bookings:
  "score_venue (self\<lparr>db := (db self)\<lparr>bookings := bs\<rparr>\<rparr>) uid p v = score_venue self uid p v"
  by (simp add: score_venue_def Let_def)

text \<open>
  Claim C9: two runs of \<^verbatim>\<open>recommend_venues\<close> on data that differ only in the bookings
  table, hence only in what \<^verbatim>\<open>get_user_bookings\<close> returns, give the same ranked list
  and the same reasoning (or the same exception).
\<close>

theorem recommend_venues_ignores_bookings:
  "recommend_venues (self\<lparr>db := (db self)\<lparr>bookings := bs\<rparr>\<rparr>) uid limit show_reasoning
     = recommend_venues self uid limit show_reasoning"
proof (cases "build_user_profile self uid")
  case (Inl e)
  then show ?thesis
    by (simp add: recommend_venues_def build_user_profile_bookings)
next
  case (Inr p)
  have "score_venue (self\<lparr>db := (db self)\<lparr>bookings := bs\<rparr>\<rparr>) uid p = score_venue self uid p"
    by (rule ext) (rule score_venue_bookings)
  with Inr show ?thesis
    by (simp add: recommend_venues_def build_user_profile_bookings get_all_venues_def)
qed

subsection \<open>A user id with no user record\<close>

lemma build_user_profile_no_user:
  "get_user (db self) uid = None \<Longrightarrow> build_user_profile self uid = Inl AttributeError"
  by (simp add: build_user_profile_def Let_def split: prod.splits)

lemma recommend_venues_no_user:
  "get_user (db self) uid = None \<Longrightarrow>
   recommend_venues self uid limit show_reasoning = Inl AttributeError"
  using build_user_profile_no_user[of self uid] by (simp add: recommend_venues_def)

lemma demo_ghost: "get_user (db demo_engine) ''ghost'' = None"
  by (simp add: get_user_None demo_engine_def demo_db_def demo_user_def)

text \<open>
  Claim C3 at a failing input: the example database has no user \<^verbatim>\<open>ghost\<close>. The claim
  asks \<^verbatim>\<open>build_user_profile\<close>, and \<^verbatim>\<open>recommend_venues\<close> through it, to signal the
  distinguished error \<open>NotFound\<close>. Both end in Python's \<^verbatim>\<open>AttributeError\<close> instead, raised
  when \<^verbatim>\<open>user.location\<close> is read on \<^verbatim>\<open>None\<close>: the result of \<^verbatim>\<open>get_user\<close> is never
  tested, unlike that of \<^verbatim>\<open>get_venue\<close> in the same function.
\<close>

theorem missing_user_raises_attribute_error:
  "get_user (db demo_engine) ''ghost'' = None
   \<and> build_user_profile demo_engine ''ghost'' = Inl AttributeError
   \<and> recommend_venues demo_engine ''ghost'' 10 False = Inl AttributeError
   \<and> build_user_profile demo_engine ''ghost'' \<noteq> Inl NotFound
   \<and> recommend_venues demo_engine ''ghost'' 10 False \<noteq> Inl NotFound"
  using build_user_profile_no_user[OF demo_ghost]
    recommend_venues_no_user[OF demo_ghost, of 10 False] demo_ghost
  by simp

subsection \<open>Category scores\<close>

text \<open>
  Every entry of \<^verbatim>\<open>category_engagement\<close> is created by an increment and only incremented
  afterwards: its counters are non-negative and one of them is positive.
\<close>

definition metrics_inv :: "metrics \<Rightarrow> bool" where
  "metrics_inv m \<longleftrightarrow>
     0 \<le> views m \<and> 0 \<le> likes m \<and> 0 \<le> saves m \<and> 0 \<le> visits m
     \<and> 1 \<le> views m + likes m + saves m + visits m"

lemma set_update_cases:
  "(k', v') \<in> set (AList.update k v al) \<Longrightarrow> (k', v') = (k, v) \<or> (k', v') \<in> set al"
  by (induction al) (auto split: if_splits)

lemma bump_inv:
  assumes al: "\<forall>(c, m) \<in> set ce. metrics_inv m"
    and f: "\<And>m. m = default_metrics \<or> metrics_inv m \<Longrightarrow> metrics_inv (f m)"
  shows "\<forall>(c, m) \<in> set (bump f k ce). metrics_inv m"
proof -
  have old: "metrics_inv (f (case map_of ce k of None \<Rightarrow> default_metrics | Some m \<Rightarrow> m))"
  proof (cases "map_of ce k")
    case None
    then show ?thesis using f by simp
  next
    case (Some m)
    then have "(k, m) \<in> set ce" by (rule map_of_SomeD)
    with al have "metrics_inv m" by auto
    with Some show ?thesis using f by simp
  qed
  show ?thesis
    unfolding bump_def using al old by (auto dest!: set_update_cases)
qed

lemma engagement_step_inv:
  assumes "\<forall>(c, m) \<in> set (fst st). metrics_inv m"
  shows "\<forall>(c, m) \<in> set (fst (engagement_step d i st)). metrics_inv m"
proof -
  obtain ce tv where st: "st = (ce, tv)" by (cases st)
  have ce: "\<forall>(c, m) \<in> set ce. metrics_inv m" using assms st by simp
  have b1: "\<forall>(c, m) \<in> set (bump (\<lambda>m. m\<lparr>views := views m + 1\<rparr>) k ce). metrics_inv m" for k
    by (rule bump_inv[OF ce]) (auto simp: metrics_inv_def default_metrics_def)
  have b2: "\<forall>(c, m) \<in> set (bump (\<lambda>m. m\<lparr>likes := likes m + 1\<rparr>) k ce). metrics_inv m" for k
    by (rule bump_inv[OF ce]) (auto simp: metrics_inv_def default_metrics_def)
  have b3: "\<forall>(c, m) \<in> set (bump (\<lambda>m. m\<lparr>saves := saves m + 1\<rparr>) k ce). metrics_inv m" for k
    by (rule bump_inv[OF ce]) (auto simp: metrics_inv_def default_metrics_def)
  have b4: "\<forall>(c, m) \<in> set (bump (\<lambda>m. m\<lparr>visits := visits m + 1\<rparr>) k ce). metrics_inv m" for k
    by (rule bump_inv[OF ce]) (auto simp: metrics_inv_def default_metrics_def)
  show ?thesis
    using ce b1 b2 b3 b4
    by (simp add: engagement_step_def st split: option.splits InteractionType.splits)
qed

lemma engagement_loop_inv:
  "\<forall>(c, m) \<in> set (fst st). metrics_inv m \<Longrightarrow>
   \<forall>(c, m) \<in> set (fst (engagement_loop d is st)). metrics_inv m"
proof (induction "is" arbitrary: st)
  case Nil
  then show ?case by simp
next
  case (Cons i "is")
  show ?case
    using Cons.IH[OF engagement_step_inv[OF Cons.prems]] by simp
qed

lemma category_score_lower: "metrics_inv m \<Longrightarrow> 0.3 \<le> category_score m"
proof -
  assume "metrics_inv m"
  then have nn: "0 \<le> views m" "0 \<le> likes m" "0 \<le> saves m" "0 \<le> visits m"
    and one: "1 \<le> views m + likes m + saves m + visits m"
    by (simp_all add: metrics_inv_def)
  define a b c e where "a = real_of_int (views m)" and "b = real_of_int (likes m)"
    and "c = real_of_int (saves m)" and "e = real_of_int (visits m)"
  have r: "0 \<le> a" "0 \<le> b" "0 \<le> c" "0 \<le> e"
    using nn by (simp_all add: a_def b_def c_def e_def)
  have "real_of_int 1 \<le> real_of_int (views m + likes m + saves m + visits m)"
    using one by (simp only: of_int_le_iff)
  then have s: "1 \<le> a + b + c + e"
    by (simp add: a_def b_def c_def e_def)
  have "0.3 \<le> a * 0.3 + b * 1.0 + c * 1.5 + e * 2.0"
    using r s by argo
  then show ?thesis by (simp add: category_score_def a_def b_def c_def e_def)
qed

lemma build_user_profile_scores:
  assumes "build_user_profile self uid = Inr p"
  shows "\<forall>(c, s) \<in> set (category_scores p). 0.3 \<le> s"
proof -
  obtain ce tv where l: "engagement_loop (db self) (get_user_interactions (db self) uid) ([], 0)
      = (ce, tv)"
    by (cases "engagement_loop (db self) (get_user_interactions (db self) uid) ([], 0)")
  have "\<forall>(c, m) \<in> set (fst (engagement_loop (db self) (get_user_interactions (db self) uid)
      ([], 0))). metrics_inv m"
    by (rule engagement_loop_inv) simp
  then have ce: "\<forall>(c, m) \<in> set ce. metrics_inv m" by (simp add: l)
  have "category_scores p = map (\<lambda>(c, m). (c, category_score m)) ce"
    using assms by (auto simp: build_user_profile_def Let_def l split: option.splits)
  moreover have "0.3 \<le> category_score m" if "(c, m) \<in> set ce" for c m
    using ce that by (intro category_score_lower) auto
  ultimately show ?thesis by auto
qed

subsection \<open>Features\<close>

lemma category_lookup_lower:
  assumes "build_user_profile self uid = Inr p"
    and "map_of (category_scores p) c = Some s"
  shows "0.3 \<le> s"
proof -
  from assms(2) have "(c, s) \<in> set (category_scores p)" by (rule map_of_SomeD)
  with build_user_profile_scores[OF assms(1)] show ?thesis by auto
qed

lemma map_of_None_iff: "map_of al k = None \<longleftrightarrow> k \<notin> fst ` set al"
  by (simp add: map_of_eq_None_iff)

text \<open>
  Claim C1, as amended: for a venue with rating in \<open>[0, 5]\<close> and trending score in
  \<open>[0, 1]\<close> and the profile built for a user, the feature vector has five entries. The
  first three, \<open>rating / 5\<close>, \<open>max 0 (1 - distance / 10)\<close> and the trending score, lie in
  \<open>[0, 1]\<close>, and the fifth is \<open>capacity / 1000\<close>. The fourth feature,
  \<^verbatim>\<open>category_match * category_engagement\<close>, is \<open>0.05\<close> exactly when the user has no score
  for the venue's category and otherwise is the category score itself, which is at least
  \<open>0.3\<close> and has no upper bound.
\<close>

theorem venue_features_ranges:
  assumes p: "build_user_profile self uid = Inr p"
    and r: "0 \<le> rating venue" "rating venue \<le> 5"
    and t: "0 \<le> trending_score venue" "trending_score venue \<le> 1"
  shows "length (get_venue_features venue p) = 5
    \<and> get_venue_features venue p ! 0 = rating venue / 5
    \<and> 0 \<le> get_venue_features venue p ! 0 \<and> get_venue_features venue p ! 0 \<le> 1
    \<and> get_venue_features venue p ! 1
        = max 0 (1 - calculate_distance (location p) (venue_location venue) / 10)
    \<and> 0 \<le> get_venue_features venue p ! 1 \<and> get_venue_features venue p ! 1 \<le> 1
    \<and> get_venue_features venue p ! 2 = trending_score venue
    \<and> 0 \<le> get_venue_features venue p ! 2 \<and> get_venue_features venue p ! 2 \<le> 1
    \<and> get_venue_features venue p ! 3
        = (case map_of (category_scores p) (category venue) of None \<Rightarrow> 0.05 | Some s \<Rightarrow> s)
    \<and> (case map_of (category_scores p) (category venue) of None \<Rightarrow> True | Some s \<Rightarrow> 0.3 \<le> s)
    \<and> (get_venue_features venue p ! 3 = 0.05 \<or> 0.3 \<le> get_venue_features venue p ! 3)
    \<and> get_venue_features venue p ! 4 = real_of_int (capacity venue) / 1000"
proof -
  let ?d = "calculate_distance (location p) (venue_location venue)"
  let ?cm = "if category venue \<in> fst ` set (category_scores p) then 1 else (0.5::real)"
  let ?ce = "case map_of (category_scores p) (category venue) of Some s \<Rightarrow> s | None \<Rightarrow> (0.1::real)"
  let ?f3 = "case map_of (category_scores p) (category venue) of None \<Rightarrow> 0.05 | Some s \<Rightarrow> (s::real)"
  have f: "get_venue_features venue p =
      [rating venue / 5, max 0 (1 - ?d / 10), trending_score venue, ?cm * ?ce,
       real_of_int (capacity venue) / 1000]"
    by (simp add: get_venue_features_def Let_def)
  have d: "0 \<le> ?d" by (rule calculate_distance_nonneg)
  have f1: "0 \<le> max 0 (1 - ?d / 10)" "max 0 (1 - ?d / 10) \<le> 1"
    using d by simp_all
  have f3: "?cm * ?ce = ?f3
      \<and> (case map_of (category_scores p) (category venue) of None \<Rightarrow> True | Some s \<Rightarrow> 0.3 \<le> s)
      \<and> (?cm * ?ce = 0.05 \<or> 0.3 \<le> ?cm * ?ce)"
  proof (cases "map_of (category_scores p) (category venue)")
    case None
    then have "category venue \<notin> fst ` set (category_scores p)"
      by (simp add: map_of_None_iff)
    with None show ?thesis by simp
  next
    case (Some s)
    then have "category venue \<in> fst ` set (category_scores p)"
      using map_of_None_iff[of "category_scores p" "category venue"] by simp
    moreover have "0.3 \<le> s" using p Some by (rule category_lookup_lower)
    ultimately show ?thesis using Some by simp
  qed
  let ?G = "get_venue_features venue p"
  have gl: "length ?G = 5"
    and g0: "?G ! 0 = rating venue / 5"
    and g1: "?G ! 1 = max 0 (1 - ?d / 10)"
    and g2: "?G ! 2 = trending_score venue"
    and g3: "?G ! 3 = ?cm * ?ce"
    and g4: "?G ! 4 = real_of_int (capacity venue) / 1000"
    by (simp_all add: f)
  have b0: "0 \<le> ?G ! 0" "?G ! 0 \<le> 1"
    using r by (simp_all add: g0)
  have b1: "0 \<le> ?G ! 1" "?G ! 1 \<le> 1"
    using f1 by (simp_all only: g1)
  have b2: "0 \<le> ?G ! 2" "?G ! 2 \<le> 1"
    using t by (simp_all only: g2)
  have h3: "?G ! 3 = ?f3"
    using conjunct1[OF f3] by (simp only: g3)
  have h3b: "case map_of (category_scores p) (category venue) of None \<Rightarrow> True | Some s \<Rightarrow> 0.3 \<le> s"
    by (rule conjunct1[OF conjunct2[OF f3]])
  have h3c: "?G ! 3 = 0.05 \<or> 0.3 \<le> ?G ! 3"
    using conjunct2[OF conjunct2[OF f3]] by (simp only: g3)
  show ?thesis
    by (intro conjI; (rule gl g0 g1 g2 g4 b0 b1 b2 h3 h3b h3c))
qed

text \<open>
  The example user and the example venue satisfy the hypotheses; the user has the score
  \<open>2\<close> for cafes, and that is the fourth feature.
\<close>

theorem venue_features_ranges_witness:
  "build_user_profile demo_engine ''user_000'' = Inr demo_profile
   \<and> 0 \<le> rating demo_venue \<and> rating demo_venue \<le> 5
   \<and> 0 \<le> trending_score demo_venue \<and> trending_score demo_venue \<le> 1
   \<and> length (get_venue_features demo_venue demo_profile) = 5
   \<and> get_venue_features demo_venue demo_profile ! 0 = rating demo_venue / 5
   \<and> 0 \<le> get_venue_features demo_venue demo_profile ! 0
   \<and> get_venue_features demo_venue demo_profile ! 0 \<le> 1
   \<and> get_venue_features demo_venue demo_profile ! 1
       = max 0 (1 - calculate_distance (location demo_profile) (venue_location demo_venue) / 10)
   \<and> 0 \<le> get_venue_features demo_venue demo_profile ! 1
   \<and> get_venue_features demo_venue demo_profile ! 1 \<le> 1
   \<and> get_venue_features demo_venue demo_profile ! 2 = trending_score demo_venue
   \<and> 0 \<le> get_venue_features demo_venue demo_profile ! 2
   \<and> get_venue_features demo_venue demo_profile ! 2 \<le> 1
   \<and> map_of (category_scores demo_profile) (category demo_venue) = Some 2
   \<and> get_venue_features demo_venue demo_profile ! 3 = 2
   \<and> (0.3::real) \<le> 2
   \<and> get_venue_features demo_venue demo_profile ! 4 = real_of_int (capacity demo_venue) / 1000"
proof -
  have r: "0 \<le> rating demo_venue" "rating demo_venue \<le> 5"
    and t: "0 \<le> trending_score demo_venue" "trending_score demo_venue \<le> 1"
    by (simp_all add: demo_venue_def)
  have c: "map_of (category_scores demo_profile) (category demo_venue) = Some 2"
    by (simp add: demo_profile_def demo_venue_def)
  show ?thesis
    using venue_features_ranges[OF demo_build r t] demo_build r t c
      calculate_distance_nonneg[of "location demo_profile" "venue_location demo_venue"]
    by simp
qed

lemma demo_features:
  "get_venue_features demo_venue demo_profile = [4 / 5, 1, 1 / 2, 2, 1 / 10]"
  by (simp add: get_venue_features_def demo_venue_def demo_profile_def calculate_distance_same)

text \<open>
  Claim C1 as stated bounds the fourth feature by \<open>1\<close>. One visit to a cafe gives the
  category the score \<open>2.0\<close>, and the feature is \<open>1.0 * 2.0\<close>.
\<close>

theorem category_feature_counterexample:
  "build_user_profile demo_engine ''user_000'' = Inr demo_profile
   \<and> 0 \<le> rating demo_venue \<and> rating demo_venue \<le> 5
   \<and> 0 \<le> trending_score demo_venue \<and> trending_score demo_venue \<le> 1
   \<and> get_venue_features demo_venue demo_profile ! 3 = 2
   \<and> \<not> get_venue_features demo_venue demo_profile ! 3 \<le> 1"
  using demo_build by (simp add: demo_features) (simp add: demo_venue_def)

subsection \<open>Final score\<close>

lemma interest_boost_loop_nonneg:
  "0 \<le> b \<Longrightarrow> 0 \<le> interest_boost_loop ints venue b"
  by (induction ints arbitrary: b) simp_all

lemma set_slice_to: "set (slice_to limit xs) \<subseteq> set xs"
  by (simp add: slice_to_def set_take_subset)

lemma get_venue_features_nonneg:
  assumes p: "build_user_profile self uid = Inr p"
    and v: "0 \<le> rating venue" "0 \<le> trending_score venue" "0 \<le> capacity venue"
  shows "0 \<le> sum_list (map2 (*) (get_venue_features venue p) [0.25, 0.25, 0.2, 0.25, 0.05])"
proof -
  let ?d = "calculate_distance (location p) (venue_location venue)"
  let ?cm = "if category venue \<in> fst ` set (category_scores p) then 1 else (0.5::real)"
  let ?ce = "case map_of (category_scores p) (category venue) of Some s \<Rightarrow> s | None \<Rightarrow> (0.1::real)"
  have f: "get_venue_features venue p =
      [rating venue / 5, max 0 (1 - ?d / 10), trending_score venue, ?cm * ?ce,
       real_of_int (capacity venue) / 1000]"
    by (simp add: get_venue_features_def Let_def)
  have ce: "0 \<le> ?ce"
  proof (cases "map_of (category_scores p) (category venue)")
    case None
    then show ?thesis by simp
  next
    case (Some s)
    with category_lookup_lower[OF p Some] show ?thesis by simp
  qed
  have cm: "0 \<le> ?cm" by simp
  have f3: "0 \<le> ?cm * ?ce" using cm ce by (rule mult_nonneg_nonneg)
  have f1: "0 \<le> max 0 (1 - ?d / 10)" by simp
  have f4: "0 \<le> real_of_int (capacity venue) / 1000" using v(3) by simp
  have f0: "0 \<le> rating venue / 5" using v(1) by simp
  show ?thesis
    unfolding f using f0 f1 v(2) f3 f4 by simp
qed

lemma category_boost_nonneg:
  assumes p: "build_user_profile self uid = Inr p"
  shows "0 \<le> (case map_of (category_scores p) c of Some s \<Rightarrow> s | None \<Rightarrow> 0) * (0.1::real)"
proof (cases "map_of (category_scores p) c")
  case None
  then show ?thesis by simp
next
  case (Some s)
  with category_lookup_lower[OF p Some] show ?thesis by simp
qed

lemma score_venue_fst:
  "fst (score_venue self uid p venue) =
     (venue,
      min 1 (sum_list (map2 (*) (get_venue_features venue p) [0.25, 0.25, 0.2, 0.25, 0.05])
             + interest_boost_loop (profile_interests p) venue 0
             + (case map_of (category_scores p) (category venue) of Some s \<Rightarrow> s | None \<Rightarrow> 0) * 0.1),
      interest_boost_loop (profile_interests p) venue 0,
      (case map_of (category_scores p) (category venue) of Some s \<Rightarrow> s | None \<Rightarrow> 0) * 0.1)"
  by (simp add: score_venue_def Let_def)

lemma recommend_venues_Inr:
  assumes "recommend_venues self uid limit show_reasoning = Inr (recommendations, why)"
  obtains p where "build_user_profile self uid = Inr p"
    and "recommendations =
           map (\<lambda>(v, s, ib, cb). (v, s))
             (slice_to limit (sort_key (\<lambda>(v, s, ib, cb). - s)
                (map fst (map (score_venue self uid p) (get_all_venues (db self))))))"
    and "details why =
           slice_to limit (sort_key (\<lambda>d. - final_score_of d)
             (map snd (map (score_venue self uid p) (get_all_venues (db self)))))"
proof (cases "build_user_profile self uid")
  case (Inl e)
  with assms show ?thesis by (simp add: recommend_venues_def)
next
  case (Inr p)
  with assms that[OF Inr] show ?thesis
    by (auto simp: recommend_venues_def Let_def)
qed

text \<open>
  Claim C4: every pair \<open>(venue, final_score)\<close> that \<^verbatim>\<open>recommend_venues\<close> returns has its score
  in \<open>[0, 1]\<close>, and the score is \<^verbatim>\<open>min(1.0, base_score + interest_boost + category_boost)\<close>
  for the requesting user's profile. The catalog is one of venue records as the data
  model has them: rating, trending score and capacity are not negative.
\<close>

theorem final_score_in_unit_interval:
  assumes rv: "recommend_venues self uid limit show_reasoning = Inr (recommendations, why)"
    and cat: "\<forall>v \<in> set (get_all_venues (db self)).
                0 \<le> rating v \<and> 0 \<le> trending_score v \<and> 0 \<le> capacity v"
    and mem: "(venue, final_score) \<in> set recommendations"
  shows "0 \<le> final_score \<and> final_score \<le> 1
    \<and> (\<exists>p. build_user_profile self uid = Inr p
          \<and> final_score =
              min 1 (sum_list (map2 (*) (get_venue_features venue p) [0.25, 0.25, 0.2, 0.25, 0.05])
                     + interest_boost_loop (profile_interests p) venue 0
                     + (case map_of (category_scores p) (category venue) of
                          Some s \<Rightarrow> s
                        | None \<Rightarrow> 0) * 0.1))"
proof -
  from rv obtain p where p: "build_user_profile self uid = Inr p"
    and recs: "recommendations =
           map (\<lambda>(v, s, ib, cb). (v, s))
             (slice_to limit (sort_key (\<lambda>(v, s, ib, cb). - s)
                (map fst (map (score_venue self uid p) (get_all_venues (db self))))))"
    by (rule recommend_venues_Inr)
  let ?scored = "map fst (map (score_venue self uid p) (get_all_venues (db self)))"
  from mem have "(venue, final_score)
      \<in> (\<lambda>(v, s, ib, cb). (v, s)) ` set (slice_to limit (sort_key (\<lambda>(v, s, ib, cb). - s) ?scored))"
    unfolding recs by (simp only: set_map)
  then obtain x where x: "x \<in> set (slice_to limit (sort_key (\<lambda>(v, s, ib, cb). - s) ?scored))"
    and xe: "(venue, final_score) = (\<lambda>(v, s, ib, cb). (v, s)) x"
    by (rule imageE)
  obtain v0 s0 ib cb where x4: "x = (v0, s0, ib, cb)" by (cases x) auto
  from xe have x': "x = (venue, final_score, ib, cb)" by (simp add: x4)
  from x set_slice_to have "x \<in> set (sort_key (\<lambda>(v, s, ib, cb). - s) ?scored)"
    by (rule rev_subsetD)
  then have "x \<in> set ?scored" by (simp only: set_sort)
  then have "x \<in> (\<lambda>v. fst (score_venue self uid p v)) ` set (get_all_venues (db self))"
    by (simp only: set_map image_image)
  then obtain v where v: "v \<in> set (get_all_venues (db self))"
    and e0: "x = fst (score_venue self uid p v)"
    by (rule imageE)
  from e0 have e: "(venue, final_score, ib, cb) = fst (score_venue self uid p v)"
    by (simp only: x')
  let ?x = "sum_list (map2 (*) (get_venue_features venue p) [0.25, 0.25, 0.2, 0.25, 0.05])
            + interest_boost_loop (profile_interests p) venue 0
            + (case map_of (category_scores p) (category venue) of Some s \<Rightarrow> s | None \<Rightarrow> 0) * 0.1"
  from e have vv: "venue = v" and fs: "final_score = min 1 ?x"
    unfolding score_venue_fst by simp_all
  have ok: "0 \<le> rating venue" "0 \<le> trending_score venue" "0 \<le> capacity venue"
    using cat v vv by auto
  have "0 \<le> sum_list (map2 (*) (get_venue_features venue p) [0.25, 0.25, 0.2, 0.25, 0.05])"
    using p ok by (rule get_venue_features_nonneg)
  moreover have "0 \<le> interest_boost_loop (profile_interests p) venue 0"
    by (rule interest_boost_loop_nonneg) simp
  moreover have "0 \<le> (case map_of (category_scores p) (category venue) of
                         Some s \<Rightarrow> s | None \<Rightarrow> 0) * (0.1::real)"
    using p by (rule category_boost_nonneg)
  ultimately have "0 \<le> ?x" by linarith
  then have "0 \<le> min 1 ?x" "min 1 ?x \<le> 1" by simp_all
  with fs p show ?thesis by blast
qed

lemma demo_bookings: "get_user_bookings demo_db ''user_000'' = []"
  by (simp add: get_user_bookings_def demo_db_def)

lemma demo_score:
  assumes d: "db self = demo_db"
  shows "score_venue self ''user_000'' demo_profile demo_venue
           = ((demo_venue, 1, 0, 1 / 5), demo_detail)"
proof -
  have i: "profile_interests demo_profile = []" by (simp add: demo_profile_def)
  have c: "map_of (category_scores demo_profile) (category demo_venue) = Some 2"
    by (simp add: demo_profile_def demo_venue_def)
  have n: "name demo_venue = ''Blue Bottle''" by (simp add: demo_venue_def)
  show ?thesis
    by (simp add: score_venue_def Let_def demo_features i c n demo_detail_def)
qed

lemma demo_recommend:
  assumes d: "db self = demo_db"
  shows "recommend_venues self ''user_000'' 10 True
           = Inr ([(demo_venue, 1)],
                  \<lparr>algorithm = ''Hybrid Recommendation Engine'', details = [demo_detail]\<rparr>)"
proof -
  have v: "get_all_venues (db self) = [demo_venue]"
    by (simp add: d get_all_venues_def demo_db_def)
  show ?thesis
    by (simp add: recommend_venues_def demo_build_db[OF d] v demo_score[OF d] slice_to_def)
qed

text \<open>The example: one venue is returned, with score \<open>min 1 1.255 = 1\<close>.\<close>

theorem final_score_in_unit_interval_witness:
  "recommend_venues demo_engine ''user_000'' 10 True
     = Inr ([(demo_venue, 1)],
            \<lparr>algorithm = ''Hybrid Recommendation Engine'', details = [demo_detail]\<rparr>)
   \<and> get_all_venues (db demo_engine) = [demo_venue]
   \<and> 0 \<le> rating demo_venue \<and> 0 \<le> trending_score demo_venue \<and> 0 \<le> capacity demo_venue
   \<and> (demo_venue, 1) \<in> set [(demo_venue, 1::real)]
   \<and> (0::real) \<le> 1 \<and> (1::real) \<le> 1
   \<and> (\<exists>p. build_user_profile demo_engine ''user_000'' = Inr p
         \<and> 1 = min 1 (sum_list (map2 (*) (get_venue_features demo_venue p)
                                  [0.25, 0.25, 0.2, 0.25, 0.05])
                       + interest_boost_loop (profile_interests p) demo_venue 0
                       + (case map_of (category_scores p) (category demo_venue) of
                            Some s \<Rightarrow> s
                          | None \<Rightarrow> 0) * 0.1))"
proof -
  have d: "db demo_engine = demo_db" by (simp add: demo_engine_def)
  have r: "recommend_venues demo_engine ''user_000'' 10 True
     = Inr ([(demo_venue, 1)],
            \<lparr>algorithm = ''Hybrid Recommendation Engine'', details = [demo_detail]\<rparr>)"
    using d by (rule demo_recommend)
  have c: "\<forall>v \<in> set (get_all_venues (db demo_engine)).
         0 \<le> rating v \<and> 0 \<le> trending_score v \<and> 0 \<le> capacity v"
    by (simp add: d get_all_venues_def demo_db_def demo_venue_def)
  have m: "(demo_venue, 1) \<in> set [(demo_venue, 1::real)]" by simp
  have v: "get_all_venues (db demo_engine) = [demo_venue]"
    by (simp add: d get_all_venues_def demo_db_def)
  have n: "0 \<le> rating demo_venue" "0 \<le> trending_score demo_venue" "0 \<le> capacity demo_venue"
    by (simp_all add: demo_venue_def)
  show ?thesis
    using final_score_in_unit_interval[OF r c m] r v n m by blast
qed

subsection \<open>Training\<close>

lemma demo_venue_label: "venue_label_loop [demo_visit] [] = [(''venue_000'', 1)]"
  by (simp add: interaction_label_def demo_visit_def)

lemma demo_training_loop:
  assumes d: "db self = demo_db"
  shows "training_loop self (get_all_user_ids (db self)) ([], [])
           = Inr ([[4 / 5, 1, 1 / 2, 2, 1 / 10]], [1])"
proof -
  have ids: "get_all_user_ids demo_db = [''user_000'']"
    by (simp add: get_all_user_ids_def demo_db_def demo_user_def)
  show ?thesis
    by (simp add: d ids demo_build_db[OF d] demo_interactions demo_venue_label demo_get_venue
        demo_features del: venue_label_loop.simps)
qed

lemma demo_train:
  "train_ranker_from_interactions demo_sklearn demo_engine 1 = Inr trained_engine"
proof -
  have d: "db demo_engine = demo_db" by (simp add: demo_engine_def)
  have ids: "get_all_user_ids (db demo_engine) \<noteq> []"
    by (simp add: d get_all_user_ids_def demo_db_def)
  show ?thesis
    using ids
    by (simp add: train_ranker_from_interactions_def demo_training_loop[OF d])
       (simp add: demo_sklearn_def demo_engine_def trained_engine_def)
qed

text \<open>
  Claim C2 at a failing input: the engine that training on the example data (one sample,
  \<^verbatim>\<open>min_samples = 1\<close>) leaves behind has a ranker loaded, and the breakdown
  \<^verbatim>\<open>recommend_venues\<close> returns for the scored venue has no \<^verbatim>\<open>ml_score\<close> entry.
\<close>

theorem trained_engine_no_ml_score:
  "train_ranker_from_interactions demo_sklearn demo_engine 1 = Inr trained_engine
   \<and> rank_model trained_engine = Some ()
   \<and> recommend_venues trained_engine ''user_000'' 10 True
       = Inr ([(demo_venue, 1)],
              \<lparr>algorithm = ''Hybrid Recommendation Engine'', details = [demo_detail]\<rparr>)
   \<and> map_of demo_detail ''ml_score'' = None"
proof -
  have d: "db trained_engine = demo_db" by (simp add: trained_engine_def)
  show ?thesis
    using demo_train demo_recommend[OF d]
    by (simp add: trained_engine_def demo_detail_def)
qed

lemma build_user_profile_user:
  assumes "get_user (db self) uid = Some u"
  shows "\<exists>p. build_user_profile self uid = Inr p"
proof -
  obtain ce tv where "engagement_loop (db self) (get_user_interactions (db self) uid) ([], 0)
      = (ce, tv)"
    by (cases "engagement_loop (db self) (get_user_interactions (db self) uid) ([], 0)")
  with assms show ?thesis by (simp add: build_user_profile_def Let_def)
qed

lemma training_loop_total:
  "\<forall>uid \<in> set ids. get_user (db self) uid \<noteq> None \<Longrightarrow>
   \<exists>X y. training_loop self ids Xy = Inr (X, y)"
proof (induction ids arbitrary: Xy)
  case Nil
  show ?case by (cases Xy) simp
next
  case (Cons uid ids)
  from Cons.prems obtain u where "get_user (db self) uid = Some u" by auto
  then obtain p where p: "build_user_profile self uid = Inr p"
    using build_user_profile_user by blast
  from Cons.prems have "\<forall>uid \<in> set ids. get_user (db self) uid \<noteq> None" by simp
  from Cons.IH[OF this] show ?case by (simp add: p Let_def)
qed

lemma get_all_user_ids_exist:
  "\<forall>uid \<in> set (get_all_user_ids d). get_user d uid \<noteq> None"
  by (auto simp: get_all_user_ids_def get_user_None)

text \<open>
  Claim C5: assembling the training set never fails (every id of \<^verbatim>\<open>get_all_user_ids\<close>
  has a user), and when it holds fewer than \<^verbatim>\<open>min_samples\<close> samples the call returns
  with the engine, its ranker model and scaler included, as it was.
\<close>

theorem training_below_min_samples_noop:
  "\<exists>X y. training_loop self (get_all_user_ids (db self)) ([], []) = Inr (X, y)
         \<and> (int (length X) < min_samples
              \<longrightarrow> train_ranker_from_interactions sk self min_samples = Inr self)"
proof -
  obtain X y where l: "training_loop self (get_all_user_ids (db self)) ([], []) = Inr (X, y)"
    using training_loop_total[OF get_all_user_ids_exist] by blast
  have "train_ranker_from_interactions sk self min_samples = Inr self"
    if "int (length X) < min_samples"
    using that by (simp add: train_ranker_from_interactions_def Let_def l)
  with l show ?thesis by blast
qed

text \<open>The example data give one sample, fewer than the default \<open>50\<close>.\<close>

theorem training_below_min_samples_noop_witness:
  "training_loop demo_engine (get_all_user_ids (db demo_engine)) ([], [])
     = Inr ([[4 / 5, 1, 1 / 2, 2, 1 / 10]], [1])
   \<and> int (length [[4 / 5, 1, 1 / 2, 2, 1 / 10 :: real]]) < 50
   \<and> train_ranker_from_interactions demo_sklearn demo_engine 50 = Inr demo_engine"
proof -
  have d: "db demo_engine = demo_db" by (simp add: demo_engine_def)
  note l = demo_training_loop[OF d]
  from training_below_min_samples_noop[of demo_engine 50 demo_sklearn]
  obtain X y where "training_loop demo_engine (get_all_user_ids (db demo_engine)) ([], [])
      = Inr (X, y)"
    and i: "int (length X) < 50
      \<longrightarrow> train_ranker_from_interactions demo_sklearn demo_engine 50 = Inr demo_engine"
    by blast
  with l have "X = [[4 / 5, 1, 1 / 2, 2, 1 / 10]]" by simp
  with i have "train_ranker_from_interactions demo_sklearn demo_engine 50 = Inr demo_engine"
    by simp
  with l show ?thesis by simp
qed

subsection \<open>Labels\<close>

text \<open>
  The labels of the qualifying interactions with one venue, in the order of the
  interactions: what the claim takes the maximum of.
\<close>

definition qualifying_labels :: "string \<Rightarrow> Interaction list \<Rightarrow> real list" where
  "qualifying_labels vid inters =
     List.map_filter interaction_label (filter (\<lambda>i. inter_venue_id i = vid) inters)"

lemma interaction_label_range: "interaction_label i = Some l \<Longrightarrow> l = 0 \<or> l = 1"
  by (auto simp: interaction_label_def split: if_splits)

lemma qualifying_labels_Cons:
  "qualifying_labels vid (i # rest) =
     (if inter_venue_id i = vid
      then (case interaction_label i of
              None \<Rightarrow> qualifying_labels vid rest
            | Some l \<Rightarrow> l # qualifying_labels vid rest)
      else qualifying_labels vid rest)"
  by (simp add: qualifying_labels_def List.map_filter_simps split: option.splits)

lemma qualifying_labels_Nil: "qualifying_labels vid [] = []"
  by (simp add: qualifying_labels_def List.map_filter_simps)

lemma venue_label_loop_lookup:
  "map_of (venue_label_loop inters vl) vid =
     (if qualifying_labels vid inters = [] then map_of vl vid
      else Some (Max (insert (case map_of vl vid of None \<Rightarrow> 0 | Some l \<Rightarrow> l)
                        (set (qualifying_labels vid inters)))))"
proof (induction inters arbitrary: vl)
  case Nil
  show ?case by (simp add: qualifying_labels_Nil)
next
  case (Cons i rest)
  let ?prev = "case map_of vl (inter_venue_id i) of Some l \<Rightarrow> l | None \<Rightarrow> (0.0::real)"
  show ?case
  proof (cases "interaction_label i")
    case None
    then show ?thesis
      using Cons.IH[of vl] by (simp add: qualifying_labels_Cons)
  next
    case (Some label)
    let ?vl = "AList.update (inter_venue_id i) (max ?prev label) vl"
    have step: "venue_label_loop (i # rest) vl = venue_label_loop rest ?vl"
      using Some by (simp add: Let_def)
    show ?thesis
    proof (cases "inter_venue_id i = vid")
      case False
      then have "map_of ?vl vid = map_of vl vid" by (simp add: update_conv')
      with False Some show ?thesis
        unfolding step using Cons.IH[of ?vl] by (simp add: qualifying_labels_Cons)
    next
      case True
      have m: "map_of ?vl vid = Some (max ?prev label)"
        using True by (simp add: update_conv')
      have q: "qualifying_labels vid (i # rest) = label # qualifying_labels vid rest"
        using True Some by (simp add: qualifying_labels_Cons)
      have p: "(case map_of vl vid of None \<Rightarrow> 0 | Some l \<Rightarrow> l) = ?prev"
        using True by (simp split: option.splits)
      show ?thesis
      proof (cases "qualifying_labels vid rest = []")
        case True
        then show ?thesis
          unfolding step using Cons.IH[of ?vl] m q p by simp
      next
        case False
        have "Max (insert (max ?prev label) (set (qualifying_labels vid rest)))
              = Max (insert ?prev (insert label (set (qualifying_labels vid rest))))"
          using False by (simp add: max.assoc)
        with False show ?thesis
          unfolding step using Cons.IH[of ?vl] m q p by simp
      qed
    qed
  qed
qed

lemma qualifying_labels_nonneg: "l \<in> set (qualifying_labels vid inters) \<Longrightarrow> 0 \<le> l"
proof (induction inters)
  case Nil
  then show ?case by (simp add: qualifying_labels_Nil)
next
  case (Cons i rest)
  then show ?case
    by (auto simp: qualifying_labels_Cons split: if_splits option.splits
        dest: interaction_label_range)
qed

text \<open>
  Claim C6: after the loop over a user's interactions, \<^verbatim>\<open>venue_label\<close> holds for each
  venue the maximum of the labels of the user's qualifying interactions with it, and no
  entry for a venue with none. LIKE, SAVE and VISIT give \<open>1.0\<close>; VIEW gives \<open>0.0\<close> up to
  15 seconds, \<open>1.0\<close> from 60 seconds on and no label in between; COMMENT and CLICK give
  no label.
\<close>

theorem venue_label_is_max_label:
  "map_of (venue_label_loop inters []) vid =
     (if qualifying_labels vid inters = [] then None
      else Some (Max (set (qualifying_labels vid inters))))
   \<and> interaction_label (i\<lparr>interaction_type := LIKE\<rparr>) = Some 1
   \<and> interaction_label (i\<lparr>interaction_type := SAVE\<rparr>) = Some 1
   \<and> interaction_label (i\<lparr>interaction_type := VISIT\<rparr>) = Some 1
   \<and> interaction_label (i\<lparr>interaction_type := VIEW\<rparr>) =
       (if duration_seconds i \<le> 15 then Some 0
        else if 60 \<le> duration_seconds i then Some 1 else None)
   \<and> interaction_label (i\<lparr>interaction_type := COMMENT\<rparr>) = None
   \<and> interaction_label (i\<lparr>interaction_type := CLICK\<rparr>) = None"
proof -
  have "Max (insert 0 (set (qualifying_labels vid inters))) = Max (set (qualifying_labels vid inters))"
    if ne: "qualifying_labels vid inters \<noteq> []"
  proof -
    have "Max (set (qualifying_labels vid inters)) \<in> set (qualifying_labels vid inters)"
      using ne by (intro Max_in) simp_all
    then have "0 \<le> Max (set (qualifying_labels vid inters))"
      by (rule qualifying_labels_nonneg)
    then show ?thesis using ne by simp
  qed
  then have "map_of (venue_label_loop inters []) vid =
     (if qualifying_labels vid inters = [] then None
      else Some (Max (set (qualifying_labels vid inters))))"
    by (simp add: venue_label_loop_lookup)
  then show ?thesis by (simp add: interaction_label_def)
qed

text \<open>One VISIT and one short VIEW of the same venue, in either order: the label is \<open>1.0\<close>.\<close>

theorem visit_and_short_view_label:
  "qualifying_labels ''venue_000'' [demo_visit, demo_short_view] = [1, 0]
   \<and> map_of (venue_label_loop [demo_visit, demo_short_view] []) ''venue_000'' = Some 1
   \<and> map_of (venue_label_loop [demo_short_view, demo_visit] []) ''venue_000'' = Some 1"
proof -
  have a: "qualifying_labels ''venue_000'' [demo_visit, demo_short_view] = [1, 0]"
    by (simp add: qualifying_labels_Cons qualifying_labels_Nil interaction_label_def
        demo_visit_def demo_short_view_def)
  have b: "qualifying_labels ''venue_000'' [demo_short_view, demo_visit] = [0, 1]"
    by (simp add: qualifying_labels_Cons qualifying_labels_Nil interaction_label_def
        demo_visit_def demo_short_view_def)
  show ?thesis
    using venue_label_is_max_label[of "[demo_visit, demo_short_view]" "''venue_000''" demo_visit]
      venue_label_is_max_label[of "[demo_short_view, demo_visit]" "''venue_000''" demo_visit]
    by (simp add: a b)
qed

subsection \<open>Candidates of \<^verbatim>\<open>recommend_users\<close>\<close>

lemma collect_users_members:
  assumes "u \<in> set (collect_users d uid target_user i all_users)"
  shows "u \<in> set all_users
    \<or> (\<exists>k. i \<le> k \<and> get_user d (user_key k) = Some u
           \<and> (\<forall>j. i \<le> j \<and> j \<le> k \<longrightarrow> get_user d (user_key j) \<noteq> None))"
  using assms
proof (induction d uid target_user i all_users rule: collect_users.induct)
  case (1 d uid target_user i all_users)
  show ?case
  proof (cases "get_user d (user_key i)")
    case None
    with "1.prems" show ?thesis by (simp add: collect_users.simps[of d uid target_user i])
  next
    case (Some user)
    let ?acc = "if user_id user \<noteq> uid \<and> user_id user \<notin> set (blocked_users target_user)
                then all_users @ [user] else all_users"
    from "1.prems" Some have "u \<in> set (collect_users d uid target_user (i + 1) ?acc)"
      by (simp add: collect_users.simps[of d uid target_user i])
    from "1.IH"[OF Some this]
    consider "u \<in> set ?acc"
      | k where "i + 1 \<le> k" "get_user d (user_key k) = Some u"
          "\<forall>j. i + 1 \<le> j \<and> j \<le> k \<longrightarrow> get_user d (user_key j) \<noteq> None"
      by blast
    then show ?thesis
    proof cases
      case 1
      then have "u \<in> set all_users \<or> u = user" by (auto split: if_splits)
      then show ?thesis
      proof
        assume "u \<in> set all_users" then show ?thesis ..
      next
        assume "u = user"
        with Some have "get_user d (user_key i) = Some u" by simp
        moreover have "\<forall>j. i \<le> j \<and> j \<le> i \<longrightarrow> get_user d (user_key j) \<noteq> None"
          using Some by (auto simp: le_antisym)
        ultimately show ?thesis by blast
      qed
    next
      case 2
      have "\<forall>j. i \<le> j \<and> j \<le> k \<longrightarrow> get_user d (user_key j) \<noteq> None"
      proof (intro allI impI)
        fix j assume j: "i \<le> j \<and> j \<le> k"
        show "get_user d (user_key j) \<noteq> None"
        proof (cases "j = i")
          case True
          with Some show ?thesis by simp
        next
          case False
          with j have "i + 1 \<le> j \<and> j \<le> k" by simp
          with 2(3) show ?thesis by blast
        qed
      qed
      moreover have "i \<le> k" using 2(1) by simp
      ultimately show ?thesis using 2(2) by blast
    qed
  qed
qed

lemma score_users_members:
  assumes "score_users self tp others scored = Inr result" and "(u, s) \<in> set result"
  shows "(u, s) \<in> set scored \<or> u \<in> set others"
  using assms
proof (induction others arbitrary: scored)
  case Nil
  then show ?case by simp
next
  case (Cons other rest)
  then obtain op where op: "build_user_profile self (user_id other) = Inr op"
    by (cases "build_user_profile self (user_id other)") simp_all
  with Cons.prems have "score_users self tp rest (scored @ [(other, compatibility_score tp op)])
      = Inr result"
    by simp
  from Cons.IH[OF this Cons.prems(2)] show ?case by auto
qed

text \<open>
  Claim C10: every user \<^verbatim>\<open>recommend_users\<close> returns has an id \<^verbatim>\<open>user_000\<close>,
  \<^verbatim>\<open>user_001\<close>, ... of the run the loop walks, that is, the id \<open>user_key k\<close> for a \<open>k\<close>
  such that every key up to \<open>k\<close> has a user. A user whose id is outside that run is never
  returned.
\<close>

theorem recommend_users_candidates:
  assumes "recommend_users self uid limit = Inr result" and "(u, score) \<in> set result"
  shows "\<exists>k. user_id u = user_key k \<and> get_user (db self) (user_key k) = Some u
             \<and> (\<forall>j. j \<le> k \<longrightarrow> get_user (db self) (user_key j) \<noteq> None)"
proof -
  from assms(1) obtain tp where tp: "build_user_profile self uid = Inr tp"
    by (cases "build_user_profile self uid") (simp_all add: recommend_users_def)
  from assms(1) tp obtain tu where tu: "get_user (db self) uid = Some tu"
    by (cases "get_user (db self) uid") (simp_all add: recommend_users_def)
  let ?all = "collect_users (db self) uid tu 0 []"
  from assms(1) tp tu obtain scored where sc: "score_users self tp ?all [] = Inr scored"
    and res: "result = slice_to limit (sort_key (\<lambda>(u, s). - s) scored)"
    by (cases "score_users self tp ?all []") (simp_all add: recommend_users_def)
  from assms(2) have "(u, score) \<in> set (sort_key (\<lambda>(u, s). - s) scored)"
    unfolding res using set_slice_to by (rule rev_subsetD)
  then have "(u, score) \<in> set scored" by (simp only: set_sort)
  with score_users_members[OF sc] have "u \<in> set ?all" by auto
  from collect_users_members[OF this]
  obtain k where k: "get_user (db self) (user_key k) = Some u"
    and run: "\<forall>j. 0 \<le> j \<and> j \<le> k \<longrightarrow> get_user (db self) (user_key j) \<noteq> None"
    by auto
  from get_user_Some[OF k] have "user_id u = user_key k" by simp
  with k run show ?thesis by auto
qed

lemma user_key_0: "user_key 0 = ''user_000''"
  by (simp add: user_key_def format_03d_def digit_char_def str_nat.simps numeral_2_eq_2)

lemma user_key_1: "user_key (0 + 1) = ''user_001''"
  by (simp add: user_key_def format_03d_def digit_char_def str_nat.simps numeral_2_eq_2)

lemma user_key_2: "user_key (0 + 1 + 1) = ''user_002''"
  by (simp add: user_key_def format_03d_def digit_char_def str_nat.simps numeral_2_eq_2)

lemma pair_get_user_0: "get_user pair_db ''user_000'' = Some demo_user"
  by (simp add: get_user_def pair_db_def demo_user_def)

lemma pair_get_user_1: "get_user pair_db ''user_001'' = Some demo_friend"
  by (simp add: get_user_def pair_db_def demo_user_def demo_friend_def)

lemma pair_get_user_2: "get_user pair_db ''user_002'' = None"
  by (simp add: get_user_None pair_db_def demo_user_def demo_friend_def demo_guest_def)

lemma pair_collect: "collect_users pair_db ''user_000'' demo_user 0 [] = [demo_friend]"
proof -
  have self: "(user_id demo_user \<noteq> ''user_000''
      \<and> user_id demo_user \<notin> set (blocked_users demo_user)) = False"
    by (simp add: demo_user_def)
  have other: "(user_id demo_friend \<noteq> ''user_000''
      \<and> user_id demo_friend \<notin> set (blocked_users demo_user)) = True"
    by (simp add: demo_user_def demo_friend_def)
  have "collect_users pair_db ''user_000'' demo_user 0 []
      = collect_users pair_db ''user_000'' demo_user (0 + 1) []"
    by (subst collect_users.simps)
       (simp only: user_key_0 pair_get_user_0 option.case self if_False)
  also have "\<dots> = collect_users pair_db ''user_000'' demo_user (0 + 1 + 1) ([] @ [demo_friend])"
    by (subst collect_users.simps)
       (simp only: user_key_1 pair_get_user_1 option.case other if_True)
  also have "\<dots> = [] @ [demo_friend]"
    by (subst collect_users.simps)
       (simp only: user_key_2 pair_get_user_2 option.case)
  finally show ?thesis by simp
qed

lemma pair_build_0: "build_user_profile pair_engine ''user_000'' = Inr demo_profile"
proof -
  have d: "db pair_engine = pair_db" by (simp add: pair_engine_def)
  have i: "get_user_interactions pair_db ''user_000'' = [demo_visit]"
    by (simp add: get_user_interactions_def pair_db_def demo_visit_def)
  have v: "get_venue pair_db = get_venue demo_db"
    by (rule ext) (simp add: get_venue_def pair_db_def demo_db_def)
  have s: "engagement_step pair_db = engagement_step demo_db"
    by (intro ext) (simp add: engagement_step_def v)
  have f: "filter (\<lambda>i. interaction_type i = VIEW) [demo_visit] = []"
    by (simp add: demo_visit_def)
  show ?thesis
    by (simp add: build_user_profile_def d i pair_get_user_0 s demo_step f
        category_score_def demo_profile_def demo_user_def)
qed

lemma pair_build_1: "build_user_profile pair_engine ''user_001'' = Inr friend_profile"
proof -
  have d: "db pair_engine = pair_db" by (simp add: pair_engine_def)
  have i: "get_user_interactions pair_db ''user_001'' = []"
    by (simp add: get_user_interactions_def pair_db_def demo_visit_def)
  show ?thesis
    by (simp add: build_user_profile_def d i pair_get_user_1 friend_profile_def demo_friend_def)
qed

lemma pair_compatibility: "compatibility_score demo_profile friend_profile = 1 / 4"
  by (simp add: compatibility_score_def interest_overlap_def category_overlap_def
      location_score_def calculate_distance_same demo_profile_def friend_profile_def)

lemma pair_recommend:
  "recommend_users pair_engine ''user_000'' 5 = Inr [(demo_friend, 1 / 4)]"
proof -
  have d: "db pair_engine = pair_db" by (simp add: pair_engine_def)
  have u: "user_id demo_friend = ''user_001''" by (simp add: demo_friend_def)
  show ?thesis
    by (simp add: recommend_users_def d pair_get_user_0 pair_build_0 pair_collect u pair_build_1
        pair_compatibility slice_to_def)
qed

text \<open>
  In the second example \<^verbatim>\<open>user_000\<close> is offered \<^verbatim>\<open>user_001\<close>; the user \<^verbatim>\<open>guest\<close> is in
  the table and is not offered.
\<close>

theorem recommend_users_candidates_witness:
  "recommend_users pair_engine ''user_000'' 5 = Inr [(demo_friend, 1 / 4)]
   \<and> (demo_friend, 1 / 4) \<in> set [(demo_friend, 1 / 4 :: real)]
   \<and> (\<exists>k. user_id demo_friend = user_key k
          \<and> get_user (db pair_engine) (user_key k) = Some demo_friend
          \<and> (\<forall>j. j \<le> k \<longrightarrow> get_user (db pair_engine) (user_key j) \<noteq> None))
   \<and> demo_guest \<in> set (users (db pair_engine))
   \<and> demo_guest \<notin> fst ` set [(demo_friend, 1 / 4 :: real)]"
proof -
  have m: "(demo_friend, 1 / 4) \<in> set [(demo_friend, 1 / 4 :: real)]" by simp
  have g: "demo_guest \<in> set (users (db pair_engine))"
    by (simp add: pair_engine_def pair_db_def)
  have n: "demo_guest \<notin> fst ` set [(demo_friend, 1 / 4 :: real)]"
    by (simp add: demo_guest_def demo_friend_def)
  show ?thesis
    using recommend_users_candidates[OF pair_recommend m] pair_recommend m g n by blast
qed

end
